theory Spec2Isabelle
  imports Main
begin

section \<open>Data model\<close>

text \<open>
  The repository holds three evolutions of one service registry:
  \<^item> the first server (register, list, get on an in-process map, no validation);
  \<^item> the second server (main.go, first program): the in-process map guarded by a
    mutex, with validation, update, delete and heartbeat;
  \<^item> the third server (main.go, second program): records in Redis, registration
    through a Kafka consumer, update and heartbeat through WATCH transactions.
  Definitions carry the suffix \<open>_v1\<close>, \<open>_mem\<close> and \<open>_redis\<close> accordingly.
\<close>

type_synonym time = nat

text \<open>
  Modelled from the spec: \<open>lib.Service\<close> is declared in the external package
  autro-library, which is not part of the sources. The spec (data model, ServiceRecord)
  gives its fields: name, address and lastHeartbeat. The Go zero value of a string is
  the empty string.
\<close>

record Service =
  Name :: string
  Address :: string
  LastHeartbeat :: time

subsection \<open>HTTP responses\<close>

text \<open>
  A handler answers through \<open>c.JSON(code, obj)\<close>. A response is the list of the
  \<open>c.JSON\<close> calls the handler made, in order. gin writes the status line at the
  first call; a later call cannot override the status any more and only appends its
  body. So the status a client sees is the code of the first call (200 when the
  handler wrote nothing).
\<close>

datatype body =
    H string string
  | ServiceBody Service
  | ServicesBody "string \<Rightarrow> Service option"

type_synonym response = "(nat \<times> body) list"

abbreviation (input) StatusOK :: nat where "StatusOK \<equiv> 200"
abbreviation (input) StatusBadRequest :: nat where "StatusBadRequest \<equiv> 400"
abbreviation (input) StatusNotFound :: nat where "StatusNotFound \<equiv> 404"
abbreviation (input) StatusConflict :: nat where "StatusConflict \<equiv> 409"
abbreviation (input) StatusInternalServerError :: nat where "StatusInternalServerError \<equiv> 500"

fun statusOf :: "response \<Rightarrow> nat" where
  "statusOf [] = StatusOK"
| "statusOf ((code, b) # rest) = code"

text \<open>Whether a response is a listing that contains the given name.\<close>

fun lists :: "string \<Rightarrow> response \<Rightarrow> bool" where
  "lists name ((code, ServicesBody services) # rest) = (services name \<noteq> None)"
| "lists name other = False"

text \<open>
  The request body after \<open>c.ShouldBindJSON(&service)\<close>: either the binding error's
  text or the decoded service.
\<close>

type_synonym binding = "string + Service"

subsection \<open>Validation\<close>

text \<open>\<open>validateService\<close> returns the error's message, or \<open>None\<close> for \<open>nil\<close>.\<close>

definition validateService :: "Service \<Rightarrow> string option" where
  "validateService service =
     (if Name service = [] then Some ''service name cannot be empty''
      else if Address service = [] then Some ''service Address cannot be empty''
      else None)"

section \<open>The first server: an in-process map, no validation\<close>

type_synonym services = "string \<Rightarrow> Service option"

definition registerService_v1 :: "binding \<Rightarrow> services \<Rightarrow> response \<times> services" where
  "registerService_v1 req services =
     (case req of
        Inl err \<Rightarrow> ([(StatusBadRequest, H ''error'' err)], services)
      | Inr service \<Rightarrow>
          ([(StatusOK, H ''message'' ''Service registered successfully'')],
           services(Name service \<mapsto> service)))"

definition listServices_v1 :: "services \<Rightarrow> response \<times> services" where
  "listServices_v1 services = ([(StatusOK, ServicesBody services)], services)"

definition getService_v1 :: "string \<Rightarrow> services \<Rightarrow> response \<times> services" where
  "getService_v1 name services =
     (case services name of
        None \<Rightarrow> ([(StatusNotFound, H ''error'' ''Service not found'')], services)
      | Some service \<Rightarrow> ([(StatusOK, ServiceBody service)], services))"

section \<open>The second server: the map behind a mutex, with validation\<close>

text \<open>
  Every handler holds \<open>servicesMu\<close> around its access to the map, so a handler is one
  atomic transition of the map. \<open>now\<close> is the value \<open>time.Now()\<close> returns in the call.
\<close>

definition registerService_mem :: "binding \<Rightarrow> time \<Rightarrow> services \<Rightarrow> response \<times> services" where
  "registerService_mem req now services =
     (case req of
        Inl err \<Rightarrow> ([(StatusBadRequest, H ''error'' err)], services)
      | Inr service \<Rightarrow>
          (case validateService service of
             Some err \<Rightarrow> ([(StatusBadRequest, H ''error'' err)], services)
           | None \<Rightarrow>
               ([(StatusOK, H ''message'' ''Service registered successfully'')],
                services(Name service \<mapsto> service\<lparr>LastHeartbeat := now\<rparr>))))"

text \<open>
  In \<open>updateService\<close> the validation branch answers 400 and does not return: the
  handler goes on to the lookup and the store, and answers a second time.
\<close>

definition updateService_mem ::
  "string \<Rightarrow> binding \<Rightarrow> time \<Rightarrow> services \<Rightarrow> response \<times> services" where
  "updateService_mem name req now services =
     (case req of
        Inl err \<Rightarrow> ([(StatusBadRequest, H ''error'' err)], services)
      | Inr service \<Rightarrow>
          (let c = (case validateService service of
                      Some err \<Rightarrow> [(StatusBadRequest, H ''error'' err)]
                    | None \<Rightarrow> [])
           in if services name = None
              then (c @ [(StatusNotFound, H ''error'' ''Service not found.'')], services)
              else (c @ [(StatusOK, H ''message'' ''Service updated sucessfully.'')],
                    services(name \<mapsto> service\<lparr>LastHeartbeat := now\<rparr>))))"

definition deleteService_mem :: "string \<Rightarrow> services \<Rightarrow> response \<times> services" where
  "deleteService_mem name services =
     (if services name = None
      then ([(StatusNotFound, H ''error'' ''Service not found'')], services)
      else ([(StatusOK, H ''message'' ''Service deleted successfully'')], services(name := None)))"

definition listServices_mem :: "services \<Rightarrow> response \<times> services" where
  "listServices_mem services = ([(StatusOK, ServicesBody services)], services)"

definition getService_mem :: "string \<Rightarrow> services \<Rightarrow> response \<times> services" where
  "getService_mem name services =
     (case services name of
        None \<Rightarrow> ([(StatusNotFound, H ''error'' ''Service not found'')], services)
      | Some service \<Rightarrow> ([(StatusOK, ServiceBody service)], services))"

text \<open>The map holds pointers: the heartbeat writes the field of the stored record.\<close>

definition healthCheck_mem :: "string \<Rightarrow> time \<Rightarrow> services \<Rightarrow> response \<times> services" where
  "healthCheck_mem name now services =
     (case services name of
        None \<Rightarrow> ([(StatusNotFound, H ''error'' ''Service not found'')], services)
      | Some service \<Rightarrow>
          ([(StatusOK, H ''message'' ''Health check successful'')],
           services(name \<mapsto> service\<lparr>LastHeartbeat := now\<rparr>)))"

section \<open>The third server: Redis and Kafka\<close>

subsection \<open>The store\<close>

text \<open>
  Redis is outside the repository; the handlers are modelled against the documented
  behaviour of the commands they send. All keys share one namespace: a key holds a
  string or a set, and a set command on a string (or GET on a set) fails with
  WRONGTYPE. A string value is the JSON text of a service, or some other bytes that
  \<open>json.Unmarshal\<close> rejects; \<open>json.Marshal\<close> of a service does not fail.
\<close>

datatype payload = JSON Service | NotJSON string

definition json_Marshal :: "Service \<Rightarrow> payload" where
  "json_Marshal service = JSON service"

fun json_Unmarshal :: "payload \<Rightarrow> Service option" where
  "json_Unmarshal (JSON service) = Some service"
| "json_Unmarshal (NotJSON bytes) = None"

datatype rvalue = RString payload | RSet "string list"

datatype error =
    RedisNil
  | TxFailedErr
  | Errorf string
  | WrongType
  | ConnError
  | JSONError

datatype cmd =
    CWatch string
  | CExists string
  | CGet string
  | CSet string payload
  | CDel string
  | CSAdd string string
  | CSRem string string
  | CSMembers string
  | CExec "cmd list"

datatype logarg = ArgErr error | ArgStr string

type_synonym conn = nat

text \<open>
  The state the third server acts on:
  \<^item> \<open>kv\<close>: the Redis keyspace;
  \<^item> \<open>watching\<close>: the WATCHes in force, as (connection, key);
  \<^item> \<open>dirty\<close>: the connections one of whose watched keys was written since;
  \<^item> \<open>faults\<close>: for the commands still to come, whether the command fails in transport
    (it then does not reach the server); none fails once the list is used up;
  \<^item> \<open>trace\<close>: the commands attempted so far, oldest first;
  \<^item> \<open>logs\<close>: the lines written with \<open>log.Printf\<close>, as format and arguments.
\<close>

record world =
  kv :: "string \<Rightarrow> rvalue option"
  watching :: "(conn \<times> string) list"
  dirty :: "conn list"
  faults :: "bool list"
  trace :: "cmd list"
  logs :: "(string \<times> logarg list) list"

definition log_Printf :: "string \<Rightarrow> logarg list \<Rightarrow> world \<Rightarrow> world" where
  "log_Printf fmt args w = w\<lparr>logs := logs w @ [(fmt, args)]\<rparr>"

text \<open>
  Sending a command: it is recorded in the trace and uses up the next entry of
  \<open>faults\<close>, which tells whether the command failed in transport.
\<close>

definition next_fault :: "world \<Rightarrow> bool" where
  "next_fault w = (case faults w of [] \<Rightarrow> False | f # fs \<Rightarrow> f)"

definition sent :: "cmd \<Rightarrow> world \<Rightarrow> world" where
  "sent c w = w\<lparr>faults := tl (faults w), trace := trace w @ [c]\<rparr>"

definition attempt :: "cmd \<Rightarrow> world \<Rightarrow> bool \<times> world" where
  "attempt c w = (next_fault w, sent c w)"

text \<open>A write to a key flags every connection that watches the key.\<close>

definition touch :: "string \<Rightarrow> world \<Rightarrow> world" where
  "touch key w = w\<lparr>dirty := dirty w @ map fst (filter (\<lambda>(cn, k). k = key) (watching w))\<rparr>"

definition unwatch :: "conn \<Rightarrow> world \<Rightarrow> world" where
  "unwatch cn w =
     w\<lparr>watching := filter (\<lambda>(c, k). c \<noteq> cn) (watching w),
       dirty := filter (\<lambda>c. c \<noteq> cn) (dirty w)\<rparr>"

definition Exists :: "string \<Rightarrow> world \<Rightarrow> (error + nat) \<times> world" where
  "Exists key w =
     (case attempt (CExists key) w of
        (True, w1) \<Rightarrow> (Inl ConnError, w1)
      | (False, w1) \<Rightarrow> (Inr (case kv w1 key of None \<Rightarrow> 0 | Some v \<Rightarrow> 1), w1))"

definition Get :: "string \<Rightarrow> world \<Rightarrow> (error + payload) \<times> world" where
  "Get key w =
     (case attempt (CGet key) w of
        (True, w1) \<Rightarrow> (Inl ConnError, w1)
      | (False, w1) \<Rightarrow>
          (case kv w1 key of
             None \<Rightarrow> (Inl RedisNil, w1)
           | Some (RSet members) \<Rightarrow> (Inl WrongType, w1)
           | Some (RString v) \<Rightarrow> (Inr v, w1)))"

definition write_string :: "string \<Rightarrow> payload \<Rightarrow> world \<Rightarrow> world" where
  "write_string key v w = (touch key w)\<lparr>kv := (kv w)(key \<mapsto> RString v)\<rparr>"

definition Set :: "string \<Rightarrow> payload \<Rightarrow> world \<Rightarrow> error option \<times> world" where
  "Set key v w =
     (case attempt (CSet key v) w of
        (True, w1) \<Rightarrow> (Some ConnError, w1)
      | (False, w1) \<Rightarrow> (None, write_string key v w1))"

definition Del :: "string \<Rightarrow> world \<Rightarrow> error option \<times> world" where
  "Del key w =
     (case attempt (CDel key) w of
        (True, w1) \<Rightarrow> (Some ConnError, w1)
      | (False, w1) \<Rightarrow>
          (case kv w1 key of
             None \<Rightarrow> (None, w1)
           | Some v \<Rightarrow> (None, (touch key w1)\<lparr>kv := (kv w1)(key := None)\<rparr>)))"

definition SAdd :: "string \<Rightarrow> string \<Rightarrow> world \<Rightarrow> error option \<times> world" where
  "SAdd key member w =
     (case attempt (CSAdd key member) w of
        (True, w1) \<Rightarrow> (Some ConnError, w1)
      | (False, w1) \<Rightarrow>
          (case kv w1 key of
             None \<Rightarrow> (None, (touch key w1)\<lparr>kv := (kv w1)(key \<mapsto> RSet [member])\<rparr>)
           | Some (RString v) \<Rightarrow> (Some WrongType, w1)
           | Some (RSet members) \<Rightarrow>
               (if member \<in> set members then (None, w1)
                else (None, (touch key w1)\<lparr>kv := (kv w1)(key \<mapsto> RSet (members @ [member]))\<rparr>))))"

text \<open>Redis removes a set's key together with its last member.\<close>

definition SRem :: "string \<Rightarrow> string \<Rightarrow> world \<Rightarrow> error option \<times> world" where
  "SRem key member w =
     (case attempt (CSRem key member) w of
        (True, w1) \<Rightarrow> (Some ConnError, w1)
      | (False, w1) \<Rightarrow>
          (case kv w1 key of
             None \<Rightarrow> (None, w1)
           | Some (RString v) \<Rightarrow> (Some WrongType, w1)
           | Some (RSet members) \<Rightarrow>
               (if member \<notin> set members then (None, w1)
                else (None, (touch key w1)\<lparr>kv := (kv w1)(key :=
                        (case removeAll member members of
                           [] \<Rightarrow> None
                         | m # ms \<Rightarrow> Some (RSet (m # ms))))\<rparr>))))"

definition SMembers :: "string \<Rightarrow> world \<Rightarrow> (error + string list) \<times> world" where
  "SMembers key w =
     (case attempt (CSMembers key) w of
        (True, w1) \<Rightarrow> (Inl ConnError, w1)
      | (False, w1) \<Rightarrow>
          (case kv w1 key of
             None \<Rightarrow> (Inr [], w1)
           | Some (RString v) \<Rightarrow> (Inl WrongType, w1)
           | Some (RSet members) \<Rightarrow> (Inr members, w1)))"

subsection \<open>Transactions\<close>

text \<open>
  \<open>redisClient.Watch(ctx, fn, key)\<close> takes a connection \<open>cn\<close> of its own, sends WATCH,
  runs \<open>fn\<close> and closes the connection, which drops its watches. \<open>tx.TxPipelined\<close>
  with one SET sends MULTI, SET, EXEC: EXEC drops the connection's watches and
  answers nil, which go-redis returns as \<open>TxFailedErr\<close>, when the connection is
  flagged; otherwise the SET is applied.
\<close>

definition Tx_Watch :: "conn \<Rightarrow> string \<Rightarrow> world \<Rightarrow> error option \<times> world" where
  "Tx_Watch cn key w =
     (case attempt (CWatch key) w of
        (True, w1) \<Rightarrow> (Some ConnError, w1)
      | (False, w1) \<Rightarrow> (None, w1\<lparr>watching := watching w1 @ [(cn, key)]\<rparr>))"

definition TxPipelined_Set :: "conn \<Rightarrow> string \<Rightarrow> payload \<Rightarrow> world \<Rightarrow> error option \<times> world" where
  "TxPipelined_Set cn key v w =
     (case attempt (CExec [CSet key v]) w of
        (True, w1) \<Rightarrow> (Some ConnError, w1)
      | (False, w1) \<Rightarrow>
          (if cn \<in> set (dirty w1) then (Some TxFailedErr, unwatch cn w1)
           else (None, write_string key v (unwatch cn w1))))"

definition Watch ::
  "conn \<Rightarrow> (world \<Rightarrow> error option \<times> world) \<Rightarrow> string \<Rightarrow> world \<Rightarrow> error option \<times> world" where
  "Watch cn fn key w =
     (case Tx_Watch cn key w of
        (Some err, w1) \<Rightarrow> (Some err, unwatch cn w1)
      | (None, w1) \<Rightarrow> (case fn w1 of (err, w2) \<Rightarrow> (err, unwatch cn w2)))"

subsection \<open>The queue consumer\<close>

datatype readres = ReadErr error | Msg payload

text \<open>One turn of the \<open>for\<close> loop of \<open>registerService\<close>, on the result of \<open>ReadMessage\<close>.\<close>

definition registerService_iter :: "readres \<Rightarrow> time \<Rightarrow> world \<Rightarrow> world" where
  "registerService_iter rd now w =
     (case rd of
        ReadErr err \<Rightarrow> log_Printf ''Error reading message: %v'' [ArgErr err] w
      | Msg bytes \<Rightarrow>
          (case json_Unmarshal bytes of
             None \<Rightarrow> log_Printf ''Error unmarshaling service data: %v'' [ArgErr JSONError] w
           | Some decoded \<Rightarrow>
               (let service = decoded\<lparr>LastHeartbeat := now\<rparr>;
                    serviceJSON = json_Marshal service
                in case Set (Name service) serviceJSON w of
                     (Some err, w1) \<Rightarrow> log_Printf ''Error registering service: %v'' [ArgErr err] w1
                   | (None, w1) \<Rightarrow>
                       (case SAdd ''all:services'' (Name service) w1 of
                          (Some err, w2) \<Rightarrow>
                             log_Printf ''Error adding service to set: %v'' [ArgErr err] w2
                        | (None, w2) \<Rightarrow>
                             log_Printf ''Service registered: %s'' [ArgStr (Name service)] w2))))"

text \<open>
  The loop never ends by itself; the model runs it over a finite prefix of what the
  reader delivers, each read paired with the clock value of its turn.
\<close>

fun registerService_redis :: "(readres \<times> time) list \<Rightarrow> world \<Rightarrow> world" where
  "registerService_redis [] w = w"
| "registerService_redis ((rd, now) # rest) w =
     registerService_redis rest (registerService_iter rd now w)"

subsection \<open>The handlers\<close>

definition update_fn :: "conn \<Rightarrow> string \<Rightarrow> Service \<Rightarrow> time \<Rightarrow> world \<Rightarrow> error option \<times> world" where
  "update_fn cn name service now w =
     (case Exists name w of
        (Inl err, w1) \<Rightarrow> (Some err, w1)
      | (Inr n, w1) \<Rightarrow>
          (if n = 0 then (Some (Errorf ''service not found''), w1)
           else TxPipelined_Set cn name (json_Marshal (service\<lparr>LastHeartbeat := now\<rparr>)) w1))"

definition updateService_redis ::
  "conn \<Rightarrow> string \<Rightarrow> binding \<Rightarrow> time \<Rightarrow> world \<Rightarrow> response \<times> world" where
  "updateService_redis cn name req now w =
     (case req of
        Inl err \<Rightarrow> ([(StatusBadRequest, H ''error'' err)], w)
      | Inr service \<Rightarrow>
          (case validateService service of
             Some err \<Rightarrow> ([(StatusBadRequest, H ''error'' err)], w)
           | None \<Rightarrow>
               (case Watch cn (update_fn cn name service now) name w of
                  (None, w1) \<Rightarrow> ([(StatusOK, H ''message'' ''Service updated sucessfully.'')], w1)
                | (Some err, w1) \<Rightarrow>
                    (if err = TxFailedErr
                     then ([(StatusConflict, H ''error'' ''Transaction failed, please try again'')], w1)
                     else if err = Errorf ''service not found''
                     then ([(StatusNotFound, H ''error'' ''Service not found'')], w1)
                     else ([(StatusInternalServerError, H ''error'' ''Failed to update service'')], w1)))))"

definition deleteService_redis :: "string \<Rightarrow> world \<Rightarrow> response \<times> world" where
  "deleteService_redis name w =
     (case Exists name w of
        (Inl err, w1) \<Rightarrow>
          ([(StatusInternalServerError, H ''error'' ''Failed to check service existence'')], w1)
      | (Inr n, w1) \<Rightarrow>
          (if n = 0 then ([(StatusNotFound, H ''error'' ''Service not found'')], w1)
           else (case Del name w1 of
                   (Some err, w2) \<Rightarrow>
                     ([(StatusInternalServerError, H ''error'' ''Failed to delete service'')], w2)
                 | (None, w2) \<Rightarrow>
                     (case SRem ''all:services'' name w2 of
                        (Some err, w3) \<Rightarrow>
                          ([(StatusInternalServerError,
                             H ''error'' ''Failed to remove service from set'')], w3)
                      | (None, w3) \<Rightarrow>
                          ([(StatusOK, H ''message'' ''Service deleted successfully'')], w3)))))"

text \<open>The body of the \<open>for\<close> loop of \<open>listServices\<close> over the index's members.\<close>

fun listServices_loop :: "string list \<Rightarrow> services \<Rightarrow> world \<Rightarrow> services \<times> world" where
  "listServices_loop [] services w = (services, w)"
| "listServices_loop (name # names) services w =
     (case Get name w of
        (Inl err, w1) \<Rightarrow>
          listServices_loop names services
            (log_Printf ''Failed to get service %s: %v'' [ArgStr name, ArgErr err] w1)
      | (Inr serviceJSON, w1) \<Rightarrow>
          (case json_Unmarshal serviceJSON of
             None \<Rightarrow>
               listServices_loop names services
                 (log_Printf ''Failed to unmarshal service %s: %v'' [ArgStr name, ArgErr JSONError] w1)
           | Some service \<Rightarrow> listServices_loop names (services(name \<mapsto> service)) w1))"

definition listServices_redis :: "world \<Rightarrow> response \<times> world" where
  "listServices_redis w =
     (case SMembers ''all:services'' w of
        (Inl err, w1) \<Rightarrow> ([(StatusInternalServerError, H ''error'' ''Failed to list services'')], w1)
      | (Inr serviceNames, w1) \<Rightarrow>
          (case listServices_loop serviceNames Map.empty w1 of
             (services, w2) \<Rightarrow> ([(StatusOK, ServicesBody services)], w2)))"

definition getService_redis :: "string \<Rightarrow> world \<Rightarrow> response \<times> world" where
  "getService_redis name w =
     (case Get name w of
        (Inl err, w1) \<Rightarrow>
          (if err = RedisNil then ([(StatusNotFound, H ''error'' ''Service not found'')], w1)
           else ([(StatusInternalServerError, H ''error'' ''Failed to get service'')], w1))
      | (Inr serviceJSON, w1) \<Rightarrow>
          (case json_Unmarshal serviceJSON of
             None \<Rightarrow>
               ([(StatusInternalServerError, H ''error'' ''Failed to unmarshal service'')], w1)
           | Some service \<Rightarrow> ([(StatusOK, ServiceBody service)], w1)))"

definition healthCheck_fn :: "conn \<Rightarrow> string \<Rightarrow> time \<Rightarrow> world \<Rightarrow> error option \<times> world" where
  "healthCheck_fn cn name now w =
     (case Exists name w of
        (Inl err, w1) \<Rightarrow> (Some err, w1)
      | (Inr n, w1) \<Rightarrow>
          (if n = 0 then (Some (Errorf ''service not found''), w1)
           else (case Get name w1 of
                   (Inl err, w2) \<Rightarrow> (Some err, w2)
                 | (Inr serviceJSON, w2) \<Rightarrow>
                     (case json_Unmarshal serviceJSON of
                        None \<Rightarrow> (Some JSONError, w2)
                      | Some service \<Rightarrow>
                          TxPipelined_Set cn name
                            (json_Marshal (service\<lparr>LastHeartbeat := now\<rparr>)) w2))))"

definition healthCheck_redis :: "conn \<Rightarrow> string \<Rightarrow> time \<Rightarrow> world \<Rightarrow> response \<times> world" where
  "healthCheck_redis cn name now w =
     (case Watch cn (healthCheck_fn cn name now) name w of
        (None, w1) \<Rightarrow> ([(StatusOK, H ''message'' ''Health check successful'')], w1)
      | (Some err, w1) \<Rightarrow>
          (if err = TxFailedErr
           then ([(StatusConflict, H ''error'' ''Transaction failed, please try again'')], w1)
           else if err = Errorf ''service not found''
           then ([(StatusNotFound, H ''error'' ''Service not found'')], w1)
           else ([(StatusInternalServerError, H ''error'' ''Failed to update service health'')], w1)))"

subsection \<open>Concurrent updates\<close>

text \<open>
  Redis runs one command at a time, so concurrent handlers are interleavings of their
  commands. \<open>update_step\<close> is \<open>redisClient.Watch(ctx, fn, name)\<close> of \<open>updateService\<close>
  cut at its three commands: WATCH, then EXISTS, then the MULTI/SET/EXEC of
  \<open>TxPipelined\<close>; closing the connection is part of the step that returns.
  \<open>update_reply\<close> is the answer \<open>updateService\<close> gives for what \<open>Watch\<close> returned.
\<close>

datatype pc = AtWatch | AtExists | AtExec | Returned "error option"

fun update_step :: "conn \<Rightarrow> string \<Rightarrow> Service \<Rightarrow> time \<Rightarrow> pc \<Rightarrow> world \<Rightarrow> pc \<times> world" where
  "update_step cn name service now AtWatch w =
     (case Tx_Watch cn name w of
        (Some err, w1) \<Rightarrow> (Returned (Some err), unwatch cn w1)
      | (None, w1) \<Rightarrow> (AtExists, w1))"
| "update_step cn name service now AtExists w =
     (case Exists name w of
        (Inl err, w1) \<Rightarrow> (Returned (Some err), unwatch cn w1)
      | (Inr n, w1) \<Rightarrow>
          (if n = 0 then (Returned (Some (Errorf ''service not found'')), unwatch cn w1)
           else (AtExec, w1)))"
| "update_step cn name service now AtExec w =
     (case TxPipelined_Set cn name (json_Marshal (service\<lparr>LastHeartbeat := now\<rparr>)) w of
        (err, w1) \<Rightarrow> (Returned err, unwatch cn w1))"
| "update_step cn name service now (Returned err) w = (Returned err, w)"

text \<open>The answer of \<open>updateService\<close> for the result of \<open>Watch\<close>.\<close>

definition update_reply :: "error option \<Rightarrow> response" where
  "update_reply res =
     (case res of
        None \<Rightarrow> [(StatusOK, H ''message'' ''Service updated sucessfully.'')]
      | Some err \<Rightarrow>
          (if err = TxFailedErr
           then [(StatusConflict, H ''error'' ''Transaction failed, please try again'')]
           else if err = Errorf ''service not found''
           then [(StatusNotFound, H ''error'' ''Service not found'')]
           else [(StatusInternalServerError, H ''error'' ''Failed to update service'')]))"

text \<open>
  Two update calls on one name, each with its connection, payload and clock value. The
  schedule says which call sends its next command: \<open>True\<close> the first, \<open>False\<close> the second.
\<close>

type_synonym call = "conn \<times> Service \<times> time"

fun interleave :: "bool list \<Rightarrow> string \<Rightarrow> call \<Rightarrow> call \<Rightarrow> pc \<times> pc \<times> world \<Rightarrow> pc \<times> pc \<times> world" where
  "interleave [] name a b st = st"
| "interleave (first # sched) name (cn1, s1, t1) (cn2, s2, t2) (p1, p2, w) =
     (if first
      then (case update_step cn1 name s1 t1 p1 w of
              (p1', w') \<Rightarrow> interleave sched name (cn1, s1, t1) (cn2, s2, t2) (p1', p2, w'))
      else (case update_step cn2 name s2 t2 p2 w of
              (p2', w') \<Rightarrow> interleave sched name (cn1, s1, t1) (cn2, s2, t2) (p1, p2', w')))"

text \<open>
  A schedule of two complete calls (three commands each) is a race when the two
  transactions overlap: neither call has sent all its commands before the other sends
  its WATCH.
\<close>

definition racing :: "bool list \<Rightarrow> bool" where
  "racing sched \<longleftrightarrow>
     length sched = 6 \<and> length (filter id sched) = 3 \<and>
     take 3 sched \<noteq> [True, True, True] \<and> take 3 sched \<noteq> [False, False, False]"

text \<open>No command still to come fails in transport.\<close>

definition quiet :: "world \<Rightarrow> bool" where
  "quiet w \<longleftrightarrow> True \<notin> set (faults w)"

section \<open>Example states\<close>

definition svc_a :: Service where
  "svc_a = \<lparr>Name = ''svc-a'', Address = ''10.0.0.1:9000'', LastHeartbeat = 1\<rparr>"

definition empty_world :: world where
  "empty_world = \<lparr>kv = Map.empty, watching = [], dirty = [], faults = [], trace = [], logs = []\<rparr>"

text \<open>The state after the consumer has registered \<open>svc-a\<close> in an empty store.\<close>

definition world_a :: world where
  "world_a = registerService_redis [(Msg (JSON svc_a), 1)] empty_world"

text \<open>
  The state after the consumer has written the record of \<open>svc-a\<close> and failed to add
  the name to the index: the second command, SADD, fails in transport.
\<close>

definition world_orphan :: world where
  "world_orphan = registerService_redis [(Msg (JSON svc_a), 1)] (empty_world\<lparr>faults := [False, True]\<rparr>)"

text \<open>Whether the index set holds the name.\<close>

definition indexed :: "string \<Rightarrow> world \<Rightarrow> bool" where
  "indexed name w =
     (case kv w ''all:services'' of
        Some (RSet members) \<Rightarrow> name \<in> set members
      | Some (RString v) \<Rightarrow> False
      | None \<Rightarrow> False)"

section \<open>Properties\<close>

lemma validateService_None:
  "validateService service = None \<longleftrightarrow> Name service \<noteq> [] \<and> Address service \<noteq> []"
  by (simp add: validateService_def)

subsection \<open>The commands, as equations\<close>

lemma sent_fields [simp]:
  "kv (sent c w) = kv w" "watching (sent c w) = watching w" "dirty (sent c w) = dirty w"
  "faults (sent c w) = tl (faults w)" "trace (sent c w) = trace w @ [c]" "logs (sent c w) = logs w"
  by (simp_all add: sent_def)

lemma touch_fields [simp]:
  "kv (touch k w) = kv w" "watching (touch k w) = watching w"
  "faults (touch k w) = faults w" "trace (touch k w) = trace w" "logs (touch k w) = logs w"
  by (simp_all add: touch_def)

lemma unwatch_fields [simp]:
  "kv (unwatch cn w) = kv w"
  "faults (unwatch cn w) = faults w" "trace (unwatch cn w) = trace w" "logs (unwatch cn w) = logs w"
  by (simp_all add: unwatch_def)

lemma write_string_fields [simp]:
  "kv (write_string k v w) = (kv w)(k \<mapsto> RString v)" "watching (write_string k v w) = watching w"
  "faults (write_string k v w) = faults w" "trace (write_string k v w) = trace w"
  "logs (write_string k v w) = logs w"
  by (simp_all add: write_string_def)

lemma log_Printf_fields [simp]:
  "kv (log_Printf fmt args w) = kv w" "watching (log_Printf fmt args w) = watching w"
  "dirty (log_Printf fmt args w) = dirty w" "faults (log_Printf fmt args w) = faults w"
  "trace (log_Printf fmt args w) = trace w" "logs (log_Printf fmt args w) = logs w @ [(fmt, args)]"
  by (simp_all add: log_Printf_def)

lemma next_fault_upd [simp]:
  "next_fault (w\<lparr>watching := ws\<rparr>) = next_fault w"
  "next_fault (w\<lparr>kv := m\<rparr>) = next_fault w"
  "next_fault (touch k w) = next_fault w"
  "next_fault (unwatch cn w) = next_fault w"
  "next_fault (write_string k v w) = next_fault w"
  "next_fault (log_Printf fmt args w) = next_fault w"
  by (simp_all add: next_fault_def)

lemma json_Unmarshal_Some [simp]: "json_Unmarshal v = Some s \<longleftrightarrow> v = JSON s"
  by (cases v) auto

lemma json_Unmarshal_None: "json_Unmarshal v = None \<longleftrightarrow> (\<exists>bytes. v = NotJSON bytes)"
  by (cases v) auto

lemma Exists_eq:
  "Exists key w =
     (if next_fault w then Inl ConnError else Inr (if kv w key = None then 0 else 1),
      sent (CExists key) w)"
  by (auto simp: Exists_def attempt_def split: option.splits)

lemma Get_eq:
  "Get key w =
     (if next_fault w then Inl ConnError
      else (case kv w key of
              None \<Rightarrow> Inl RedisNil
            | Some (RSet members) \<Rightarrow> Inl WrongType
            | Some (RString v) \<Rightarrow> Inr v),
      sent (CGet key) w)"
  by (auto simp: Get_def attempt_def split: option.splits rvalue.splits)

lemma Set_eq:
  "Set key v w =
     (if next_fault w then (Some ConnError, sent (CSet key v) w)
      else (None, write_string key v (sent (CSet key v) w)))"
  by (auto simp: Set_def attempt_def)

lemma Tx_Watch_eq:
  "Tx_Watch cn key w =
     (if next_fault w then (Some ConnError, sent (CWatch key) w)
      else (None, (sent (CWatch key) w)\<lparr>watching := watching w @ [(cn, key)]\<rparr>))"
  by (auto simp: Tx_Watch_def attempt_def)

lemma TxPipelined_Set_eq:
  "TxPipelined_Set cn key v w =
     (if next_fault w then (Some ConnError, sent (CExec [CSet key v]) w)
      else if cn \<in> set (dirty w) then (Some TxFailedErr, unwatch cn (sent (CExec [CSet key v]) w))
      else (None, write_string key v (unwatch cn (sent (CExec [CSet key v]) w))))"
  by (auto simp: TxPipelined_Set_def attempt_def)

lemma no_fault_next: "True \<notin> set (faults w) \<Longrightarrow> \<not> next_fault w"
  by (auto simp: next_fault_def split: list.splits)

lemma no_fault_tl: "True \<notin> set (faults w) \<Longrightarrow> True \<notin> set (tl (faults w))"
  by (cases "faults w") auto

lemma no_fault_sent: "True \<notin> set (faults w) \<Longrightarrow> True \<notin> set (faults (sent c w))"
  by (simp add: no_fault_tl)

lemma no_fault_sent_next: "True \<notin> set (faults w) \<Longrightarrow> \<not> next_fault (sent c w)"
  by (rule no_fault_next) (rule no_fault_sent)

lemma no_fault_sent_next2:
  "True \<notin> set (faults w) \<Longrightarrow> \<not> next_fault (sent c (sent c' w))"
  by (rule no_fault_sent_next) (rule no_fault_sent)

subsection \<open>Heartbeat\<close>

lemma healthCheck_mem_present:
  "services name = Some s \<Longrightarrow>
     healthCheck_mem name now services =
       ([(StatusOK, H ''message'' ''Health check successful'')],
        services(name \<mapsto> s\<lparr>LastHeartbeat := now\<rparr>))"
  by (simp add: healthCheck_mem_def)

lemma healthCheck_redis_OK:
  assumes "statusOf (fst (healthCheck_redis cn name now w)) = StatusOK"
  shows "\<exists>s. kv w name = Some (RString (JSON s)) \<and>
             kv (snd (healthCheck_redis cn name now w)) =
               (kv w)(name \<mapsto> RString (JSON (s\<lparr>LastHeartbeat := now\<rparr>)))"
  using assms
  by (auto simp: healthCheck_redis_def healthCheck_fn_def Watch_def Tx_Watch_eq Exists_eq Get_eq
        TxPipelined_Set_eq json_Marshal_def
        split: if_splits option.splits rvalue.splits payload.splits)

text \<open>
  Claim C8. For every existing name, a successful heartbeat refreshes only the
  record's lastHeartbeat: the stored record's name and address after the heartbeat are
  those before it. In the second server every heartbeat on an existing name succeeds;
  in the third server a heartbeat that answers 200 found a decodable record under the
  name and stored it back with only the timestamp replaced.
\<close>

theorem heartbeat_keeps_name_and_address:
  "(services name = Some s \<longrightarrow>
      statusOf (fst (healthCheck_mem name now services)) = StatusOK \<and>
      (\<exists>s'. snd (healthCheck_mem name now services) name = Some s' \<and>
            Name s' = Name s \<and> Address s' = Address s \<and> LastHeartbeat s' = now)) \<and>
   (statusOf (fst (healthCheck_redis cn name now w)) = StatusOK \<longrightarrow>
      (\<exists>r r'. kv w name = Some (RString (JSON r)) \<and>
              kv (snd (healthCheck_redis cn name now w)) name = Some (RString (JSON r')) \<and>
              Name r' = Name r \<and> Address r' = Address r \<and> LastHeartbeat r' = now))"
proof (intro conjI impI)
  assume "services name = Some s"
  then show "statusOf (fst (healthCheck_mem name now services)) = StatusOK"
    and "\<exists>s'. snd (healthCheck_mem name now services) name = Some s' \<and>
            Name s' = Name s \<and> Address s' = Address s \<and> LastHeartbeat s' = now"
    by (simp_all add: healthCheck_mem_present)
next
  assume "statusOf (fst (healthCheck_redis cn name now w)) = StatusOK"
  from healthCheck_redis_OK [OF this] obtain r where
    r: "kv w name = Some (RString (JSON r))"
       "kv (snd (healthCheck_redis cn name now w)) =
          (kv w)(name \<mapsto> RString (JSON (r\<lparr>LastHeartbeat := now\<rparr>)))"
    by blast
  show "\<exists>r r'. kv w name = Some (RString (JSON r)) \<and>
              kv (snd (healthCheck_redis cn name now w)) name = Some (RString (JSON r')) \<and>
              Name r' = Name r \<and> Address r' = Address r \<and> LastHeartbeat r' = now"
    by (rule exI [of _ r], rule exI [of _ "r\<lparr>LastHeartbeat := now\<rparr>"]) (simp add: r)
qed

lemmas eval_defs = svc_a_def empty_world_def world_a_def registerService_iter_def
  healthCheck_redis_def healthCheck_fn_def Watch_def Tx_Watch_def Exists_def Get_def Set_def
  SAdd_def TxPipelined_Set_def attempt_def next_fault_def sent_def write_string_def touch_def
  unwatch_def log_Printf_def json_Marshal_def Let_def

theorem heartbeat_keeps_name_and_address_witness:
  "[''svc-a'' \<mapsto> svc_a] ''svc-a'' = Some svc_a \<and>
   statusOf (fst (healthCheck_redis 1 ''svc-a'' 7 world_a)) = StatusOK \<and>
   snd (healthCheck_mem ''svc-a'' 7 [''svc-a'' \<mapsto> svc_a]) ''svc-a'' =
     Some \<lparr>Name = ''svc-a'', Address = ''10.0.0.1:9000'', LastHeartbeat = 7\<rparr> \<and>
   kv (snd (healthCheck_redis 1 ''svc-a'' 7 world_a)) ''svc-a'' =
     Some (RString (JSON \<lparr>Name = ''svc-a'', Address = ''10.0.0.1:9000'', LastHeartbeat = 7\<rparr>))"
  using heartbeat_keeps_name_and_address
    [of "[''svc-a'' \<mapsto> svc_a]" "''svc-a''" svc_a 7 1 world_a]
  by (simp add: eval_defs healthCheck_mem_def)

subsection \<open>Absent keys\<close>

lemma Watch_update_absent:
  assumes "kv w name = None"
  shows "kv (snd (Watch cn (update_fn cn name service now) name w)) = kv w"
    and "fst (Watch cn (update_fn cn name service now) name w) \<noteq> None"
    and "fst (Watch cn (update_fn cn name service now) name w) \<noteq> Some TxFailedErr"
    and "True \<notin> set (faults w) \<Longrightarrow>
           fst (Watch cn (update_fn cn name service now) name w) = Some (Errorf ''service not found'')"
  using assms
  by (auto simp: Watch_def Tx_Watch_eq update_fn_def Exists_eq
        dest: no_fault_next no_fault_sent_next)

lemma Watch_healthCheck_absent:
  assumes "kv w name = None"
  shows "kv (snd (Watch cn (healthCheck_fn cn name now) name w)) = kv w"
    and "fst (Watch cn (healthCheck_fn cn name now) name w) \<noteq> None"
    and "fst (Watch cn (healthCheck_fn cn name now) name w) \<noteq> Some TxFailedErr"
    and "True \<notin> set (faults w) \<Longrightarrow>
           fst (Watch cn (healthCheck_fn cn name now) name w) = Some (Errorf ''service not found'')"
  using assms
  by (auto simp: Watch_def Tx_Watch_eq healthCheck_fn_def Exists_eq
        dest: no_fault_next no_fault_sent_next)

lemma updateService_redis_absent:
  assumes "kv w name = None"
  shows "kv (snd (updateService_redis cn name req now w)) = kv w"
    and "statusOf (fst (updateService_redis cn name req now w)) \<in>
           {StatusBadRequest, StatusNotFound, StatusInternalServerError}"
    and "True \<notin> set (faults w) \<Longrightarrow> req = Inr service \<Longrightarrow> validateService service = None \<Longrightarrow>
           fst (updateService_redis cn name req now w) =
             [(StatusNotFound, H ''error'' ''Service not found'')]"
proof -
  show "fst (updateService_redis cn name req now w) =
             [(StatusNotFound, H ''error'' ''Service not found'')]"
    if "True \<notin> set (faults w)" "req = Inr service" "validateService service = None"
    using Watch_update_absent(4) [OF assms that(1), of cn service now] that(2,3)
    by (auto simp: updateService_redis_def case_prod_beta)
  show "kv (snd (updateService_redis cn name req now w)) = kv w"
  proof (cases req)
    case (Inl err)
    then show ?thesis by (simp add: updateService_redis_def)
  next
    case (Inr service)
    then show ?thesis
      using Watch_update_absent(1) [OF assms, of cn service now]
      by (auto simp: updateService_redis_def case_prod_beta split: option.splits)
  qed
  show "statusOf (fst (updateService_redis cn name req now w)) \<in>
           {StatusBadRequest, StatusNotFound, StatusInternalServerError}"
  proof (cases req)
    case (Inl err)
    then show ?thesis by (simp add: updateService_redis_def)
  next
    case (Inr service)
    then show ?thesis
      using Watch_update_absent(2,3) [OF assms, of cn service now]
      by (auto simp: updateService_redis_def case_prod_beta split: option.splits)
  qed
qed

lemma healthCheck_redis_absent:
  assumes "kv w name = None"
  shows "kv (snd (healthCheck_redis cn name now w)) = kv w"
    and "statusOf (fst (healthCheck_redis cn name now w)) \<in>
           {StatusNotFound, StatusInternalServerError}"
    and "True \<notin> set (faults w) \<Longrightarrow>
           fst (healthCheck_redis cn name now w) =
             [(StatusNotFound, H ''error'' ''Service not found'')]"
proof -
  show "kv (snd (healthCheck_redis cn name now w)) = kv w"
    using Watch_healthCheck_absent(1) [OF assms, of cn now]
    by (auto simp: healthCheck_redis_def case_prod_beta split: option.splits)
  show "statusOf (fst (healthCheck_redis cn name now w)) \<in>
           {StatusNotFound, StatusInternalServerError}"
    using Watch_healthCheck_absent(2,3) [OF assms, of cn now]
    by (auto simp: healthCheck_redis_def case_prod_beta split: option.splits)
  show "fst (healthCheck_redis cn name now w) =
             [(StatusNotFound, H ''error'' ''Service not found'')]"
    if "True \<notin> set (faults w)"
    using Watch_healthCheck_absent(4) [OF assms that, of cn now]
    by (auto simp: healthCheck_redis_def case_prod_beta)
qed

text \<open>
  Claim C5. For a key absent from the store, update and heartbeat (the two handlers
  that run inside a WATCH transaction) create no record: the keyspace after the call is
  the keyspace before it, and the answer is never a success. When no command fails in
  transport the answer is 404 (for update: once the payload has passed validation,
  which is what sends it into the transaction); a transport failure gives 500.
\<close>

theorem absent_key_not_created:
  assumes "kv w name = None"
  shows "kv (snd (updateService_redis cn name req now w)) = kv w \<and>
         kv (snd (updateService_redis cn name req now w)) name = None \<and>
         kv (snd (healthCheck_redis cn name now w)) = kv w \<and>
         kv (snd (healthCheck_redis cn name now w)) name = None \<and>
         statusOf (fst (updateService_redis cn name req now w)) \<in>
           {StatusBadRequest, StatusNotFound, StatusInternalServerError} \<and>
         statusOf (fst (healthCheck_redis cn name now w)) \<in>
           {StatusNotFound, StatusInternalServerError} \<and>
         (True \<notin> set (faults w) \<longrightarrow>
            statusOf (fst (healthCheck_redis cn name now w)) = StatusNotFound \<and>
            (\<forall>service. req = Inr service \<and> validateService service = None \<longrightarrow>
               statusOf (fst (updateService_redis cn name req now w)) = StatusNotFound))"
  using assms
  by (simp add: updateService_redis_absent [OF assms] healthCheck_redis_absent [OF assms]
        del: insert_iff)

theorem absent_key_not_created_witness:
  "kv empty_world ''svc-a'' = None \<and>
   True \<notin> set (faults empty_world) \<and>
   validateService svc_a = None \<and>
   statusOf (fst (updateService_redis 1 ''svc-a'' (Inr svc_a) 7 empty_world)) = StatusNotFound \<and>
   statusOf (fst (healthCheck_redis 1 ''svc-a'' 7 empty_world)) = StatusNotFound \<and>
   kv (snd (updateService_redis 1 ''svc-a'' (Inr svc_a) 7 empty_world)) ''svc-a'' = None \<and>
   kv (snd (healthCheck_redis 1 ''svc-a'' 7 empty_world)) ''svc-a'' = None"
  using absent_key_not_created [of empty_world "''svc-a''" 1 "Inr svc_a" 7]
  by (simp add: empty_world_def svc_a_def validateService_def)

subsection \<open>Validation\<close>

lemma validateService_Some:
  "Name service = [] \<or> Address service = [] \<Longrightarrow> \<exists>err. validateService service = Some err"
  by (auto simp: validateService_def)

text \<open>
  The missing \<open>return\<close> in the second server's \<open>updateService\<close>: a payload that fails
  validation is answered 400 and still replaces the record of an existing name.
\<close>

lemma updateService_mem_invalid_payload_stored:
  "statusOf (fst (updateService_mem ''svc-a''
       (Inr \<lparr>Name = ''svc-a'', Address = [], LastHeartbeat = 0\<rparr>) 7 [''svc-a'' \<mapsto> svc_a])) =
     StatusBadRequest \<and>
   snd (updateService_mem ''svc-a''
       (Inr \<lparr>Name = ''svc-a'', Address = [], LastHeartbeat = 0\<rparr>) 7 [''svc-a'' \<mapsto> svc_a]) ''svc-a'' =
     Some \<lparr>Name = ''svc-a'', Address = [], LastHeartbeat = 7\<rparr>"
  by (simp add: updateService_mem_def validateService_def)

text \<open>
  Claim C2, as stated, fails: the first server's \<open>registerService\<close> has no validation
  at all, so a payload with an empty address is answered 200 and stored.
\<close>

theorem register_v1_accepts_empty_address:
  "statusOf (fst (registerService_v1
       (Inr \<lparr>Name = ''svc-a'', Address = [], LastHeartbeat = 0\<rparr>) Map.empty)) = StatusOK \<and>
   snd (registerService_v1
       (Inr \<lparr>Name = ''svc-a'', Address = [], LastHeartbeat = 0\<rparr>) Map.empty) ''svc-a'' =
     Some \<lparr>Name = ''svc-a'', Address = [], LastHeartbeat = 0\<rparr> \<and>
   snd (registerService_v1
       (Inr \<lparr>Name = ''svc-a'', Address = [], LastHeartbeat = 0\<rparr>) Map.empty) \<noteq> Map.empty"
proof -
  have "snd (registerService_v1
       (Inr \<lparr>Name = ''svc-a'', Address = [], LastHeartbeat = 0\<rparr>) Map.empty) ''svc-a'' \<noteq>
     Map.empty ''svc-a''"
    by (simp add: registerService_v1_def)
  then have "snd (registerService_v1
       (Inr \<lparr>Name = ''svc-a'', Address = [], LastHeartbeat = 0\<rparr>) Map.empty) \<noteq> Map.empty"
    by metis
  then show ?thesis by (simp add: registerService_v1_def)
qed

text \<open>
  Claim C2, amended. Where the code validates and returns (the second server's
  \<open>registerService\<close> and the third server's \<open>updateService\<close>), a payload with an
  empty name or an empty address is answered 400 with the validation message and the
  state after the call is the state before it (in the third server not even a command
  is sent). The first server's \<open>registerService\<close> stores whatever was decoded.
\<close>

theorem invalid_payload_rejected:
  assumes "Name service = [] \<or> Address service = []"
  shows "statusOf (fst (registerService_mem (Inr service) now services)) = StatusBadRequest \<and>
         snd (registerService_mem (Inr service) now services) = services \<and>
         statusOf (fst (updateService_redis cn name (Inr service) now w)) = StatusBadRequest \<and>
         snd (updateService_redis cn name (Inr service) now w) = w \<and>
         registerService_v1 (Inr service) services =
           ([(StatusOK, H ''message'' ''Service registered successfully'')],
            services(Name service \<mapsto> service))"
proof -
  from validateService_Some [OF assms] obtain err where "validateService service = Some err" ..
  then show ?thesis
    by (simp add: registerService_mem_def updateService_redis_def registerService_v1_def)
qed

theorem invalid_payload_rejected_witness:
  "(Name (svc_a\<lparr>Address := []\<rparr>) = [] \<or> Address (svc_a\<lparr>Address := []\<rparr>) = []) \<and>
   fst (registerService_mem (Inr (svc_a\<lparr>Address := []\<rparr>)) 7 Map.empty) =
     [(StatusBadRequest, H ''error'' ''service Address cannot be empty'')] \<and>
   snd (registerService_mem (Inr (svc_a\<lparr>Address := []\<rparr>)) 7 Map.empty) = Map.empty \<and>
   fst (updateService_redis 1 ''svc-a'' (Inr (svc_a\<lparr>Address := []\<rparr>)) 7 world_a) =
     [(StatusBadRequest, H ''error'' ''service Address cannot be empty'')] \<and>
   snd (updateService_redis 1 ''svc-a'' (Inr (svc_a\<lparr>Address := []\<rparr>)) 7 world_a) = world_a"
  using invalid_payload_rejected [of "svc_a\<lparr>Address := []\<rparr>" 7 Map.empty 1 "''svc-a''" world_a]
  by (simp add: svc_a_def registerService_mem_def updateService_redis_def validateService_def)

subsection \<open>Update\<close>

lemma updateService_mem_OK:
  assumes "statusOf (fst (updateService_mem name req now services)) = StatusOK"
  shows "\<exists>service. req = Inr service \<and> services name \<noteq> None \<and>
           snd (updateService_mem name req now services) =
             services(name \<mapsto> service\<lparr>LastHeartbeat := now\<rparr>)"
  using assms
  by (auto simp: updateService_mem_def Let_def split: sum.splits option.splits if_splits)

lemma Watch_update_OK:
  assumes "fst (Watch cn (update_fn cn name service now) name w) = None"
  shows "kv w name \<noteq> None \<and>
         kv (snd (Watch cn (update_fn cn name service now) name w)) =
           (kv w)(name \<mapsto> RString (JSON (service\<lparr>LastHeartbeat := now\<rparr>)))"
  using assms
  by (auto simp: Watch_def Tx_Watch_eq update_fn_def Exists_eq TxPipelined_Set_eq json_Marshal_def
        split: if_splits)

lemma updateService_redis_OK:
  assumes "statusOf (fst (updateService_redis cn name req now w)) = StatusOK"
  shows "\<exists>service. req = Inr service \<and> kv w name \<noteq> None \<and>
           kv (snd (updateService_redis cn name req now w)) =
             (kv w)(name \<mapsto> RString (JSON (service\<lparr>LastHeartbeat := now\<rparr>)))"
proof (cases req)
  case (Inl err)
  with assms show ?thesis by (simp add: updateService_redis_def)
next
  case (Inr service)
  with assms have v: "validateService service = None"
    by (auto simp: updateService_redis_def split: option.splits)
  with assms Inr have "fst (Watch cn (update_fn cn name service now) name w) = None"
    by (auto simp: updateService_redis_def case_prod_beta split: option.splits if_splits)
  from Watch_update_OK [OF this] this Inr v show ?thesis
    by (simp add: updateService_redis_def case_prod_beta)
qed

text \<open>
  Claim C4, as stated, fails: the record stored by a successful update carries the
  payload's name, not the key.
\<close>

theorem update_stores_payload_name:
  "statusOf (fst (updateService_redis 1 ''svc-a''
       (Inr \<lparr>Name = ''svc-b'', Address = ''10.0.0.2:9000'', LastHeartbeat = 0\<rparr>) 7 world_a)) =
     StatusOK \<and>
   kv (snd (updateService_redis 1 ''svc-a''
       (Inr \<lparr>Name = ''svc-b'', Address = ''10.0.0.2:9000'', LastHeartbeat = 0\<rparr>) 7 world_a)) ''svc-a'' =
     Some (RString (JSON \<lparr>Name = ''svc-b'', Address = ''10.0.0.2:9000'', LastHeartbeat = 7\<rparr>))"
  by (simp add: eval_defs updateService_redis_def update_fn_def validateService_def)

text \<open>
  Claim C4, amended. A successful update of key \<open>name\<close> leaves the set of keys as it
  was and replaces the value under \<open>name\<close>, and nothing else, by the payload with its
  heartbeat stamped: the record is not moved or copied to the payload's name, and its
  name field is the payload's, so it equals the key exactly when the payload's name is
  the path parameter (the premise the comment above \<open>updateService\<close> states).
\<close>

theorem update_replaces_record_under_key:
  "(statusOf (fst (updateService_mem name req now services)) = StatusOK \<longrightarrow>
      (\<exists>service. req = Inr service \<and> services name \<noteq> None \<and>
         snd (updateService_mem name req now services) =
           services(name \<mapsto> service\<lparr>LastHeartbeat := now\<rparr>))) \<and>
   (statusOf (fst (updateService_redis cn name req now w)) = StatusOK \<longrightarrow>
      (\<exists>service. req = Inr service \<and> kv w name \<noteq> None \<and>
         kv (snd (updateService_redis cn name req now w)) =
           (kv w)(name \<mapsto> RString (JSON (service\<lparr>LastHeartbeat := now\<rparr>)))))"
  using updateService_mem_OK updateService_redis_OK by blast

theorem update_replaces_record_under_key_witness:
  "statusOf (fst (updateService_mem ''svc-a'' (Inr (svc_a\<lparr>Address := ''10.0.0.9:1''\<rparr>)) 7
       [''svc-a'' \<mapsto> svc_a])) = StatusOK \<and>
   statusOf (fst (updateService_redis 1 ''svc-a'' (Inr (svc_a\<lparr>Address := ''10.0.0.9:1''\<rparr>)) 7
       world_a)) = StatusOK \<and>
   snd (updateService_mem ''svc-a'' (Inr (svc_a\<lparr>Address := ''10.0.0.9:1''\<rparr>)) 7
       [''svc-a'' \<mapsto> svc_a]) =
     [''svc-a'' \<mapsto> \<lparr>Name = ''svc-a'', Address = ''10.0.0.9:1'', LastHeartbeat = 7\<rparr>] \<and>
   kv (snd (updateService_redis 1 ''svc-a'' (Inr (svc_a\<lparr>Address := ''10.0.0.9:1''\<rparr>)) 7
       world_a)) =
     (kv world_a)(''svc-a'' \<mapsto>
        RString (JSON \<lparr>Name = ''svc-a'', Address = ''10.0.0.9:1'', LastHeartbeat = 7\<rparr>))"
  using update_replaces_record_under_key
    [of "''svc-a''" "Inr (svc_a\<lparr>Address := ''10.0.0.9:1''\<rparr>)" 7 "[''svc-a'' \<mapsto> svc_a]" 1 world_a]
  by (simp add: eval_defs updateService_redis_def update_fn_def validateService_def
        updateService_mem_def)

subsection \<open>Delete, get and list\<close>

lemma Del_eq:
  "Del key w =
     (if next_fault w then (Some ConnError, sent (CDel key) w)
      else (None, if kv w key = None then sent (CDel key) w
                  else (touch key (sent (CDel key) w))\<lparr>kv := (kv w)(key := None)\<rparr>))"
  by (auto simp: Del_def attempt_def split: option.splits)

lemma SRem_fault: "next_fault w \<Longrightarrow> SRem key member w = (Some ConnError, sent (CSRem key member) w)"
  by (simp add: SRem_def attempt_def)

lemma SRem_trace: "trace (snd (SRem key member w)) = trace w @ [CSRem key member]"
  by (auto simp: SRem_def attempt_def split: bool.splits option.splits rvalue.splits list.splits)

lemma SRem_kv_other: "k \<noteq> key \<Longrightarrow> kv (snd (SRem key member w)) k = kv w k"
  by (auto simp: SRem_def attempt_def split: bool.splits option.splits rvalue.splits list.splits)

lemma SRem_kv_absent: "kv w key = None \<Longrightarrow> kv (snd (SRem key member w)) = kv w"
  by (auto simp: SRem_def attempt_def split: bool.splits option.splits rvalue.splits list.splits)

lemma removeAll_eq_Cons:
  assumes "removeAll m xs = y # ys"
  shows "m \<noteq> y" and "m \<notin> set ys"
proof -
  have "m \<notin> set (removeAll m xs)" by simp
  then show "m \<noteq> y" and "m \<notin> set ys" unfolding assms by auto
qed

lemma SRem_not_indexed:
  "fst (SRem ''all:services'' member w) = None \<Longrightarrow> \<not> indexed member (snd (SRem ''all:services'' member w))"
  by (auto simp: SRem_def attempt_def indexed_def dest: removeAll_eq_Cons
        split: bool.splits option.splits rvalue.splits list.splits if_splits)

lemma SMembers_eq:
  "SMembers key w =
     (if next_fault w then Inl ConnError
      else (case kv w key of
              None \<Rightarrow> Inr []
            | Some (RString v) \<Rightarrow> Inl WrongType
            | Some (RSet members) \<Rightarrow> Inr members),
      sent (CSMembers key) w)"
  by (auto simp: SMembers_def attempt_def split: option.splits rvalue.splits)

lemma listServices_loop_kv: "kv (snd (listServices_loop names services w)) = kv w"
  by (induction names arbitrary: services w)
     (auto simp: Get_eq split: option.splits rvalue.splits payload.splits)

lemma listServices_loop_skips_missing:
  "kv w name = None \<Longrightarrow> fst (listServices_loop names services w) name = services name"
  by (induction names arbitrary: services w)
     (auto simp: Get_eq split: option.splits rvalue.splits payload.splits)

lemma listServices_loop_only_members:
  "name \<notin> set names \<Longrightarrow> fst (listServices_loop names services w) name = services name"
  by (induction names arbitrary: services w)
     (auto simp: Get_eq split: option.splits rvalue.splits payload.splits)

lemma listServices_redis_missing:
  "kv w name = None \<Longrightarrow> \<not> lists name (fst (listServices_redis w))"
  by (auto simp: listServices_redis_def SMembers_eq case_prod_beta listServices_loop_skips_missing
        split: option.splits rvalue.splits)

lemma listServices_redis_not_indexed:
  "\<not> indexed name w \<Longrightarrow> \<not> lists name (fst (listServices_redis w))"
  by (auto simp: listServices_redis_def SMembers_eq case_prod_beta listServices_loop_only_members
        indexed_def split: option.splits rvalue.splits)

lemma getService_redis_missing:
  "kv w name = None \<Longrightarrow> \<not> next_fault w \<Longrightarrow>
     fst (getService_redis name w) = [(StatusNotFound, H ''error'' ''Service not found'')]"
  by (simp add: getService_redis_def Get_eq)

lemma getService_redis_trace:
  "trace (snd (getService_redis name w)) = trace w @ [CGet name]"
  by (auto simp: getService_redis_def Get_eq split: option.splits rvalue.splits payload.splits)

lemma getService_redis_present:
  "kv w name = Some (RString (JSON s)) \<Longrightarrow> \<not> next_fault w \<Longrightarrow>
     fst (getService_redis name w) = [(StatusOK, ServiceBody s)]"
  by (simp add: getService_redis_def Get_eq)

lemma deleteService_redis_OK:
  assumes "statusOf (fst (deleteService_redis name w)) = StatusOK"
  shows "trace (snd (deleteService_redis name w)) =
           trace w @ [CExists name, CDel name, CSRem ''all:services'' name]"
    and "kv (snd (deleteService_redis name w)) name = None"
    and "\<not> indexed name (snd (deleteService_redis name w))"
    and "kv w name \<noteq> None"
proof -
  let ?w1 = "sent (CExists name) w"
  let ?w2 = "snd (Del name ?w1)"
  let ?w3 = "snd (SRem ''all:services'' name ?w2)"
  from assms have ok: "\<not> next_fault w" "kv w name \<noteq> None" "\<not> next_fault ?w1"
    "fst (SRem ''all:services'' name ?w2) = None"
    by (auto simp: deleteService_redis_def Exists_eq Del_eq case_prod_beta
          split: if_splits option.splits)
  then have eq: "snd (deleteService_redis name w) = ?w3"
    by (auto simp: deleteService_redis_def Exists_eq Del_eq case_prod_beta)
  have kv2: "kv ?w2 name = None" "trace ?w2 = trace w @ [CExists name, CDel name]"
    using ok by (auto simp: Del_eq)
  show "kv w name \<noteq> None" by (rule ok)
  show "trace (snd (deleteService_redis name w)) =
           trace w @ [CExists name, CDel name, CSRem ''all:services'' name]"
    by (simp add: eq SRem_trace kv2)
  show "kv (snd (deleteService_redis name w)) name = None"
  proof (cases "name = ''all:services''")
    case True
    with kv2 have "kv ?w2 ''all:services'' = None" by simp
    from SRem_kv_absent [OF this] kv2 show ?thesis by (simp add: eq)
  next
    case False
    from SRem_kv_other [OF this] kv2 show ?thesis by (simp add: eq)
  qed
  show "\<not> indexed name (snd (deleteService_redis name w))"
    using SRem_not_indexed [OF ok(4)] by (simp add: eq)
qed

text \<open>
  Claim C7. A delete that answers 200 has sent EXISTS, then DEL of the record, then
  SREM of the name from the index, in this order; afterwards the key is gone and the
  index does not hold the name, so in every later state with that keyspace get answers
  404 (when its GET reaches the store) and no listing contains the name.
\<close>

theorem delete_record_then_index:
  assumes "statusOf (fst (deleteService_redis name w)) = StatusOK"
  shows "trace (snd (deleteService_redis name w)) =
           trace w @ [CExists name, CDel name, CSRem ''all:services'' name] \<and>
         kv (snd (deleteService_redis name w)) name = None \<and>
         \<not> indexed name (snd (deleteService_redis name w)) \<and>
         (\<forall>w'. kv w' = kv (snd (deleteService_redis name w)) \<longrightarrow>
            (\<not> next_fault w' \<longrightarrow> statusOf (fst (getService_redis name w')) = StatusNotFound) \<and>
            statusOf (fst (getService_redis name w')) \<noteq> StatusOK \<and>
            \<not> lists name (fst (listServices_redis w')))"
proof -
  note d = deleteService_redis_OK [OF assms]
  have "statusOf (fst (getService_redis name w')) \<noteq> StatusOK" if "kv w' name = None" for w'
    using that by (auto simp: getService_redis_def Get_eq)
  with d show ?thesis
    by (auto simp: getService_redis_missing listServices_redis_missing)
qed

lemmas eval_store_defs = deleteService_redis_def getService_redis_def listServices_redis_def
  Del_def SRem_def SMembers_def world_orphan_def indexed_def

theorem delete_record_then_index_witness:
  "statusOf (fst (deleteService_redis ''svc-a'' world_a)) = StatusOK \<and>
   trace (snd (deleteService_redis ''svc-a'' world_a)) =
     trace world_a @ [CExists ''svc-a'', CDel ''svc-a'', CSRem ''all:services'' ''svc-a''] \<and>
   kv (snd (deleteService_redis ''svc-a'' world_a)) ''svc-a'' = None \<and>
   statusOf (fst (getService_redis ''svc-a'' (snd (deleteService_redis ''svc-a'' world_a)))) =
     StatusNotFound \<and>
   \<not> lists ''svc-a'' (fst (listServices_redis (snd (deleteService_redis ''svc-a'' world_a))))"
  using delete_record_then_index [of "''svc-a''" world_a]
  by (simp add: eval_defs eval_store_defs)

text \<open>
  Claim C9. Delete is not atomic on error: when EXISTS and DEL succeed and the SREM
  on the index fails (in transport, or because the index key holds a string),
  \<open>deleteService\<close> answers 500 although the record is gone; the index is left as it
  was, so a name it held dangles, and the keyspace has changed despite the failure.
\<close>

theorem delete_fails_after_record_removed:
  assumes "kv w name \<noteq> None" and "name \<noteq> ''all:services''"
    and "faults w = False # False # f # fs"
    and "f \<or> (\<exists>v. kv w ''all:services'' = Some (RString v))"
  shows "fst (deleteService_redis name w) =
           [(StatusInternalServerError, H ''error'' ''Failed to remove service from set'')] \<and>
         kv (snd (deleteService_redis name w)) = (kv w)(name := None) \<and>
         kv (snd (deleteService_redis name w)) \<noteq> kv w \<and>
         indexed name (snd (deleteService_redis name w)) = indexed name w \<and>
         trace (snd (deleteService_redis name w)) =
           trace w @ [CExists name, CDel name, CSRem ''all:services'' name]"
proof -
  let ?w1 = "sent (CExists name) w"
  let ?w2 = "snd (Del name ?w1)"
  from assms have nf: "\<not> next_fault w" "\<not> next_fault ?w1"
    by (simp_all add: next_fault_def)
  have w2: "kv ?w2 = (kv w)(name := None)" "faults ?w2 = f # fs"
    "trace ?w2 = trace w @ [CExists name, CDel name]" "fst (Del name ?w1) = None"
    using assms nf by (auto simp: Del_eq)
  have srem: "\<exists>err. SRem ''all:services'' name ?w2 = (Some err, sent (CSRem ''all:services'' name) ?w2)"
  proof (cases f)
    case True
    then have "next_fault ?w2" by (simp add: next_fault_def w2)
    from SRem_fault [OF this] show ?thesis by blast
  next
    case False
    with assms obtain v where "kv w ''all:services'' = Some (RString v)" by blast
    with assms(2) have "kv ?w2 ''all:services'' = Some (RString v)" by (simp add: w2)
    then show ?thesis
      by (auto simp: SRem_def attempt_def split: bool.splits)
  qed
  then obtain err where
    e: "SRem ''all:services'' name ?w2 = (Some err, sent (CSRem ''all:services'' name) ?w2)" ..
  have eq: "deleteService_redis name w =
      ([(StatusInternalServerError, H ''error'' ''Failed to remove service from set'')],
       sent (CSRem ''all:services'' name) ?w2)"
    using assms(1) nf w2(4) e
    by (simp add: deleteService_redis_def Exists_eq case_prod_beta)
  have "(kv w)(name := None) \<noteq> kv w"
    using assms(1) by (metis fun_upd_same)
  then show ?thesis
    using assms(2) by (simp add: eq w2 indexed_def)
qed

theorem delete_fails_after_record_removed_witness:
  "kv (world_a\<lparr>faults := [False, False, True]\<rparr>) ''svc-a'' \<noteq> None \<and>
   ''svc-a'' \<noteq> ''all:services'' \<and>
   indexed ''svc-a'' (world_a\<lparr>faults := [False, False, True]\<rparr>) \<and>
   statusOf (fst (deleteService_redis ''svc-a'' (world_a\<lparr>faults := [False, False, True]\<rparr>))) =
     StatusInternalServerError \<and>
   kv (snd (deleteService_redis ''svc-a'' (world_a\<lparr>faults := [False, False, True]\<rparr>))) ''svc-a'' =
     None \<and>
   indexed ''svc-a'' (snd (deleteService_redis ''svc-a'' (world_a\<lparr>faults := [False, False, True]\<rparr>)))"
  using delete_fails_after_record_removed
    [of "world_a\<lparr>faults := [False, False, True]\<rparr>" "''svc-a''" True "[]"]
  by (simp add: eval_defs eval_store_defs)

text \<open>
  Claim C10. \<open>getService\<close> sends one GET on the record's key and nothing else, and its
  answer depends on the value under that key only. So for a record present under its
  key whose name the index does not hold, get answers 200 with the record (when the GET
  reaches the store) while no listing contains the name.
\<close>

theorem get_succeeds_where_list_omits:
  assumes "kv w name = Some (RString (JSON s))" and "\<not> indexed name w"
  shows "trace (snd (getService_redis name w)) = trace w @ [CGet name] \<and>
         (\<not> next_fault w \<longrightarrow> fst (getService_redis name w) = [(StatusOK, ServiceBody s)]) \<and>
         (\<forall>w'. kv w' name = kv w name \<and> next_fault w' = next_fault w \<longrightarrow>
            fst (getService_redis name w') = fst (getService_redis name w)) \<and>
         \<not> lists name (fst (listServices_redis w))"
  using assms
  by (auto simp: getService_redis_trace getService_redis_present listServices_redis_not_indexed
        getService_redis_def Get_eq)

theorem get_succeeds_where_list_omits_witness:
  "kv world_orphan ''svc-a'' = Some (RString (JSON svc_a)) \<and>
   \<not> indexed ''svc-a'' world_orphan \<and>
   \<not> next_fault world_orphan \<and>
   fst (getService_redis ''svc-a'' world_orphan) = [(StatusOK, ServiceBody svc_a)] \<and>
   \<not> lists ''svc-a'' (fst (listServices_redis world_orphan))"
  using get_succeeds_where_list_omits [of world_orphan "''svc-a''" svc_a]
  by (simp add: eval_defs eval_store_defs)

subsection \<open>The queue consumer\<close>

lemma Set_trace_logs:
  "trace (snd (Set key v w)) = trace w @ [CSet key v]" "logs (snd (Set key v w)) = logs w"
  by (simp_all add: Set_eq)

lemma SAdd_trace_logs:
  "trace (snd (SAdd key member w)) = trace w @ [CSAdd key member]"
  "logs (snd (SAdd key member w)) = logs w"
  by (auto simp: SAdd_def attempt_def split: bool.splits option.splits rvalue.splits)

lemma registerService_redis_append:
  "registerService_redis (reads @ later) w =
     registerService_redis later (registerService_redis reads w)"
  by (induction reads arbitrary: w) auto

lemma registerService_iter_one_log:
  "length (logs (registerService_iter rd now w)) = Suc (length (logs w))"
  by (auto simp: registerService_iter_def Let_def case_prod_beta Set_trace_logs SAdd_trace_logs
        split: readres.splits option.splits)

lemma registerService_redis_logs:
  "length (logs (registerService_redis reads w)) = length (logs w) + length reads"
  by (induction reads arbitrary: w) (auto simp: registerService_iter_one_log)

text \<open>
  Claim C6, as stated, fails: when the record write fails, the consumer logs it and
  goes to the next message without attempting the index addition.
\<close>

theorem index_addition_skipped_after_failed_write:
  "trace (registerService_redis [(Msg (JSON svc_a), 1)] (empty_world\<lparr>faults := [True]\<rparr>)) =
     [CSet ''svc-a'' (JSON svc_a)] \<and>
   logs (registerService_redis [(Msg (JSON svc_a), 1)] (empty_world\<lparr>faults := [True]\<rparr>)) =
     [(''Error registering service: %v'', [ArgErr ConnError])]"
  by (simp add: eval_defs)

text \<open>
  Claim C6, amended. For every decodable message the record write is attempted
  first, and the index addition is attempted exactly when the record write has
  succeeded. A failure of either is logged (one line, naming the error), and the loop
  goes on to the next message: every read, failed or not, adds one log line, and
  running the loop over \<open>reads @ later\<close> is running it over \<open>later\<close> from the state
  \<open>reads\<close> left.
\<close>

theorem consumer_write_then_index:
  "(\<forall>err. fst (Set (Name decoded) (JSON (decoded\<lparr>LastHeartbeat := now\<rparr>)) w) = Some err \<longrightarrow>
      trace (registerService_iter (Msg (JSON decoded)) now w) =
        trace w @ [CSet (Name decoded) (JSON (decoded\<lparr>LastHeartbeat := now\<rparr>))] \<and>
      logs (registerService_iter (Msg (JSON decoded)) now w) =
        logs w @ [(''Error registering service: %v'', [ArgErr err])]) \<and>
   (fst (Set (Name decoded) (JSON (decoded\<lparr>LastHeartbeat := now\<rparr>)) w) = None \<longrightarrow>
      trace (registerService_iter (Msg (JSON decoded)) now w) =
        trace w @ [CSet (Name decoded) (JSON (decoded\<lparr>LastHeartbeat := now\<rparr>)),
                   CSAdd ''all:services'' (Name decoded)] \<and>
      (\<forall>err. fst (SAdd ''all:services'' (Name decoded)
                   (snd (Set (Name decoded) (JSON (decoded\<lparr>LastHeartbeat := now\<rparr>)) w))) = Some err \<longrightarrow>
         logs (registerService_iter (Msg (JSON decoded)) now w) =
           logs w @ [(''Error adding service to set: %v'', [ArgErr err])])) \<and>
   length (logs (registerService_redis reads w)) = length (logs w) + length reads \<and>
   registerService_redis (reads @ later) w =
     registerService_redis later (registerService_redis reads w)"
  by (auto simp: registerService_iter_def Let_def case_prod_beta json_Marshal_def
        Set_trace_logs SAdd_trace_logs registerService_redis_logs registerService_redis_append
        split: option.splits)

theorem consumer_write_then_index_witness:
  "fst (Set (Name svc_a) (JSON (svc_a\<lparr>LastHeartbeat := 1\<rparr>)) (empty_world\<lparr>faults := [False, True]\<rparr>)) =
     None \<and>
   fst (SAdd ''all:services'' (Name svc_a)
          (snd (Set (Name svc_a) (JSON (svc_a\<lparr>LastHeartbeat := 1\<rparr>))
             (empty_world\<lparr>faults := [False, True]\<rparr>)))) = Some ConnError \<and>
   trace (registerService_iter (Msg (JSON svc_a)) 1 (empty_world\<lparr>faults := [False, True]\<rparr>)) =
     [CSet ''svc-a'' (JSON svc_a), CSAdd ''all:services'' ''svc-a''] \<and>
   logs (registerService_iter (Msg (JSON svc_a)) 1 (empty_world\<lparr>faults := [False, True]\<rparr>)) =
     [(''Error adding service to set: %v'', [ArgErr ConnError])] \<and>
   logs (registerService_redis [(Msg (JSON svc_a), 1), (Msg (JSON svc_a), 2)]
           (empty_world\<lparr>faults := [False, True]\<rparr>)) =
     [(''Error adding service to set: %v'', [ArgErr ConnError]),
      (''Service registered: %s'', [ArgStr ''svc-a''])]"
  using consumer_write_then_index
    [of svc_a 1 "empty_world\<lparr>faults := [False, True]\<rparr>" "[(Msg (JSON svc_a), 1)]"
        "[(Msg (JSON svc_a), 2)]"]
  by (simp add: eval_defs)

text \<open>
  Claim C3. The claim is what the file's \<open>validateService\<close> is for, and
  \<open>updateService\<close> calls it; the consumer does not: a message whose service has an
  empty address fails validation and is stored and indexed all the same.
\<close>

theorem consumer_stores_invalid_record:
  "validateService \<lparr>Name = ''svc-a'', Address = [], LastHeartbeat = 0\<rparr> =
     Some ''service Address cannot be empty'' \<and>
   kv (registerService_redis
         [(Msg (JSON \<lparr>Name = ''svc-a'', Address = [], LastHeartbeat = 0\<rparr>), 7)] empty_world) ''svc-a'' =
     Some (RString (JSON \<lparr>Name = ''svc-a'', Address = [], LastHeartbeat = 7\<rparr>)) \<and>
   kv (registerService_redis
         [(Msg (JSON \<lparr>Name = ''svc-a'', Address = [], LastHeartbeat = 0\<rparr>), 7)] empty_world)
       ''all:services'' = Some (RSet [''svc-a'']) \<and>
   logs (registerService_redis
         [(Msg (JSON \<lparr>Name = ''svc-a'', Address = [], LastHeartbeat = 0\<rparr>), 7)] empty_world) =
     [(''Service registered: %s'', [ArgStr ''svc-a''])]"
  by (simp add: eval_defs validateService_def)

subsection \<open>Concurrent updates\<close>

lemma update_steps_Watch:
  "update_step cn name service now (fst (update_step cn name service now
      (fst (update_step cn name service now AtWatch w))
      (snd (update_step cn name service now AtWatch w))))
     (snd (update_step cn name service now
      (fst (update_step cn name service now AtWatch w))
      (snd (update_step cn name service now AtWatch w)))) =
   (Returned (fst (Watch cn (update_fn cn name service now) name w)),
    snd (Watch cn (update_fn cn name service now) name w))"
  by (auto simp: Watch_def update_fn_def Tx_Watch_eq Exists_eq TxPipelined_Set_eq case_prod_beta
       unwatch_def)

lemma updateService_redis_reply:
  "validateService service = None \<Longrightarrow>
     updateService_redis cn name (Inr service) now w =
       (update_reply (fst (Watch cn (update_fn cn name service now) name w)),
        snd (Watch cn (update_fn cn name service now) name w))"
  by (auto simp: updateService_redis_def update_reply_def case_prod_beta split: option.splits)

lemma quiet_simps [simp]:
  "quiet w \<Longrightarrow> quiet (sent c w)"
  "quiet (unwatch cn w) = quiet w"
  "quiet (write_string k v w) = quiet w"
  "quiet (w\<lparr>watching := ws\<rparr>) = quiet w"
  "quiet w \<Longrightarrow> next_fault w = False"
  by (auto simp: quiet_def no_fault_tl dest: no_fault_next)

lemma dirty_simps [simp]:
  "dirty (write_string k v w) = dirty w @ map fst (filter (\<lambda>(cn, key). key = k) (watching w))"
  "dirty (unwatch cn w) = filter (\<lambda>c. c \<noteq> cn) (dirty w)"
  "watching (unwatch cn w) = filter (\<lambda>(c, k). c \<noteq> cn) (watching w)"
  by (simp_all add: write_string_def touch_def unwatch_def)

lemma racing_cases:
  assumes "racing sched"
  shows "sched \<in> {[True, True, False, True, False, False], [True, True, False, False, True, False],
     [True, True, False, False, False, True], [True, False, True, True, False, False],
     [True, False, True, False, True, False], [True, False, True, False, False, True],
     [True, False, False, True, True, False], [True, False, False, True, False, True],
     [True, False, False, False, True, True],
     [False, False, True, False, True, True], [False, False, True, True, False, True],
     [False, False, True, True, True, False], [False, True, False, False, True, True],
     [False, True, False, True, False, True], [False, True, False, True, True, False],
     [False, True, True, False, False, True], [False, True, True, False, True, False],
     [False, True, True, True, False, False]}"
proof -
  from assms have "length sched = 6" by (simp add: racing_def)
  then obtain b1 b2 b3 b4 b5 b6 where s: "sched = [b1, b2, b3, b4, b5, b6]"
    by (auto simp: length_Suc_conv numeral_eq_Suc)
  from assms show ?thesis unfolding s racing_def
    by (cases b1; cases b2; cases b3; cases b4; cases b5; cases b6; simp)
qed

text \<open>
  A call that runs alone is the handler: the three steps of one call, taken with no
  step of the other in between, return what \<open>Watch\<close> returns and leave the state
  \<open>updateService\<close> leaves, and \<open>updateService\<close> answers with \<open>update_reply\<close> of it.
\<close>

lemma first_update_alone:
  assumes "validateService s1 = None"
  shows "\<exists>e w'. interleave [True, True, True] name (cn1, s1, t1) (cn2, s2, t2) (AtWatch, p2, w0) =
                  (Returned e, p2, w') \<and>
               Watch cn1 (update_fn cn1 name s1 t1) name w0 = (e, w') \<and>
               updateService_redis cn1 name (Inr s1) t1 w0 = (update_reply e, w')"
  by (auto simp: updateService_redis_reply [OF assms] Watch_def update_fn_def Tx_Watch_eq
        Exists_eq TxPipelined_Set_eq unwatch_def)

lemma second_update_alone:
  assumes "validateService s2 = None"
  shows "\<exists>e w'. interleave [False, False, False] name (cn1, s1, t1) (cn2, s2, t2) (p1, AtWatch, w0) =
                  (p1, Returned e, w') \<and>
               Watch cn2 (update_fn cn2 name s2 t2) name w0 = (e, w') \<and>
               updateService_redis cn2 name (Inr s2) t2 w0 = (update_reply e, w')"
  by (auto simp: updateService_redis_reply [OF assms] Watch_def update_fn_def Tx_Watch_eq
        Exists_eq TxPipelined_Set_eq unwatch_def)

lemma update_alone_commits:
  assumes "validateService service = None" and "kv w name \<noteq> None" and "quiet w"
    and "cn \<notin> set (dirty w)"
  shows "fst (updateService_redis cn name (Inr service) now w) = update_reply None"
    and "kv (snd (updateService_redis cn name (Inr service) now w)) =
           (kv w)(name \<mapsto> RString (JSON (service\<lparr>LastHeartbeat := now\<rparr>)))"
  using assms(2-)
  by (auto simp: updateService_redis_reply [OF assms(1)] Watch_def update_fn_def Tx_Watch_eq
        Exists_eq TxPipelined_Set_eq json_Marshal_def)

lemma back_to_back_updates_both_commit:
  assumes "kv w name \<noteq> None" "quiet w" "cn1 \<noteq> cn2" "cn1 \<notin> set (dirty w)" "cn2 \<notin> set (dirty w)"
    and "cn2 \<notin> fst ` set (watching w)"
  shows "\<exists>w'. interleave [True, True, True, False, False, False] name (cn1, s1, t1) (cn2, s2, t2)
                 (AtWatch, AtWatch, w) = (Returned None, Returned None, w') \<and>
              kv w' name = Some (RString (JSON (s2\<lparr>LastHeartbeat := t2\<rparr>)))"
  using assms
  by (auto simp: Tx_Watch_eq Exists_eq TxPipelined_Set_eq json_Marshal_def)

lemma racing_result:
  assumes "racing sched"
    and "kv w name \<noteq> None" and "quiet w"
    and "cn1 \<noteq> cn2" and "cn1 \<notin> set (dirty w)" and "cn2 \<notin> set (dirty w)"
  shows "\<exists>e1 e2 w'.
     interleave sched name (cn1, s1, t1) (cn2, s2, t2) (AtWatch, AtWatch, w) =
       (Returned e1, Returned e2, w') \<and>
     (if last sched
      then e2 = None \<and> e1 = Some TxFailedErr \<and>
           kv w' = (kv w)(name \<mapsto> RString (JSON (s2\<lparr>LastHeartbeat := t2\<rparr>)))
      else e1 = None \<and> e2 = Some TxFailedErr \<and>
           kv w' = (kv w)(name \<mapsto> RString (JSON (s1\<lparr>LastHeartbeat := t1\<rparr>))))"
  using racing_cases [OF assms(1)] assms(2-)
  by (elim insertE emptyE;
      simp add: Tx_Watch_eq Exists_eq TxPipelined_Set_eq json_Marshal_def)

lemma update_reply_status:
  "statusOf (update_reply None) = StatusOK"
  "statusOf (update_reply (Some TxFailedErr)) = StatusConflict"
  by (simp_all add: update_reply_def)

text \<open>
  Claim C1. Redis runs commands one at a time, so two concurrent calls of
  \<open>updateService\<close> with valid payloads are an interleaving of the commands of their
  \<open>Watch\<close> transactions (WATCH, EXISTS, then MULTI/SET/EXEC), chosen by a schedule;
  a call scheduled alone is \<open>updateService\<close> itself (the first two parts of the
  statement, for every state). The calls race when their transactions overlap: each
  call's WATCH comes before the other call's EXEC. Then, for an existing name, separate
  fresh connections and no transport failure, the call whose EXEC comes first commits and
  is answered 200, as \<open>updateService\<close> answers it when run alone; the other gets
  \<open>TxFailedErr\<close> and is answered 409; and the keyspace at the end is the one the
  winning call alone leaves: the winner's payload with its heartbeat stamp under the
  name, whatever the other payload was.
\<close>

theorem racing_updates_one_winner:
  assumes "racing sched"
    and "validateService s1 = None" and "validateService s2 = None"
    and "kv w name \<noteq> None" and "quiet w"
    and "cn1 \<noteq> cn2" and "cn1 \<notin> set (dirty w)" and "cn2 \<notin> set (dirty w)"
  shows "(\<forall>w0. \<exists>e w'.
            interleave [True, True, True] name (cn1, s1, t1) (cn2, s2, t2) (AtWatch, AtWatch, w0) =
              (Returned e, AtWatch, w') \<and>
            Watch cn1 (update_fn cn1 name s1 t1) name w0 = (e, w') \<and>
            updateService_redis cn1 name (Inr s1) t1 w0 = (update_reply e, w')) \<and>
         (\<forall>w0. \<exists>e w'.
            interleave [False, False, False] name (cn1, s1, t1) (cn2, s2, t2) (AtWatch, AtWatch, w0) =
              (AtWatch, Returned e, w') \<and>
            Watch cn2 (update_fn cn2 name s2 t2) name w0 = (e, w') \<and>
            updateService_redis cn2 name (Inr s2) t2 w0 = (update_reply e, w')) \<and>
         (\<exists>e1 e2 w'.
            interleave sched name (cn1, s1, t1) (cn2, s2, t2) (AtWatch, AtWatch, w) =
              (Returned e1, Returned e2, w') \<and>
            (if last sched
             then e2 = None \<and> statusOf (update_reply e2) = StatusOK \<and>
                  update_reply e2 = fst (updateService_redis cn2 name (Inr s2) t2 w) \<and>
                  e1 = Some TxFailedErr \<and> statusOf (update_reply e1) = StatusConflict \<and>
                  kv w' = kv (snd (updateService_redis cn2 name (Inr s2) t2 w)) \<and>
                  kv w' = (kv w)(name \<mapsto> RString (JSON (s2\<lparr>LastHeartbeat := t2\<rparr>)))
             else e1 = None \<and> statusOf (update_reply e1) = StatusOK \<and>
                  update_reply e1 = fst (updateService_redis cn1 name (Inr s1) t1 w) \<and>
                  e2 = Some TxFailedErr \<and> statusOf (update_reply e2) = StatusConflict \<and>
                  kv w' = kv (snd (updateService_redis cn1 name (Inr s1) t1 w)) \<and>
                  kv w' = (kv w)(name \<mapsto> RString (JSON (s1\<lparr>LastHeartbeat := t1\<rparr>)))))"
proof (intro conjI allI)
  fix w0
  show "\<exists>e w'.
          interleave [True, True, True] name (cn1, s1, t1) (cn2, s2, t2) (AtWatch, AtWatch, w0) =
            (Returned e, AtWatch, w') \<and>
          Watch cn1 (update_fn cn1 name s1 t1) name w0 = (e, w') \<and>
          updateService_redis cn1 name (Inr s1) t1 w0 = (update_reply e, w')"
    by (rule first_update_alone [OF assms(2)])
  show "\<exists>e w'.
          interleave [False, False, False] name (cn1, s1, t1) (cn2, s2, t2) (AtWatch, AtWatch, w0) =
            (AtWatch, Returned e, w') \<and>
          Watch cn2 (update_fn cn2 name s2 t2) name w0 = (e, w') \<and>
          updateService_redis cn2 name (Inr s2) t2 w0 = (update_reply e, w')"
    by (rule second_update_alone [OF assms(3)])
next
  note a1 = update_alone_commits [OF assms(2) assms(4) assms(5) assms(7), of t1]
  note a2 = update_alone_commits [OF assms(3) assms(4) assms(5) assms(8), of t2]
  from racing_result [OF assms(1) assms(4-), of s1 t1 s2 t2] obtain e1 e2 w' where
    r: "interleave sched name (cn1, s1, t1) (cn2, s2, t2) (AtWatch, AtWatch, w) =
          (Returned e1, Returned e2, w')"
       "if last sched
        then e2 = None \<and> e1 = Some TxFailedErr \<and>
             kv w' = (kv w)(name \<mapsto> RString (JSON (s2\<lparr>LastHeartbeat := t2\<rparr>)))
        else e1 = None \<and> e2 = Some TxFailedErr \<and>
             kv w' = (kv w)(name \<mapsto> RString (JSON (s1\<lparr>LastHeartbeat := t1\<rparr>)))"
    by blast
  show "\<exists>e1 e2 w'.
            interleave sched name (cn1, s1, t1) (cn2, s2, t2) (AtWatch, AtWatch, w) =
              (Returned e1, Returned e2, w') \<and>
            (if last sched
             then e2 = None \<and> statusOf (update_reply e2) = StatusOK \<and>
                  update_reply e2 = fst (updateService_redis cn2 name (Inr s2) t2 w) \<and>
                  e1 = Some TxFailedErr \<and> statusOf (update_reply e1) = StatusConflict \<and>
                  kv w' = kv (snd (updateService_redis cn2 name (Inr s2) t2 w)) \<and>
                  kv w' = (kv w)(name \<mapsto> RString (JSON (s2\<lparr>LastHeartbeat := t2\<rparr>)))
             else e1 = None \<and> statusOf (update_reply e1) = StatusOK \<and>
                  update_reply e1 = fst (updateService_redis cn1 name (Inr s1) t1 w) \<and>
                  e2 = Some TxFailedErr \<and> statusOf (update_reply e2) = StatusConflict \<and>
                  kv w' = kv (snd (updateService_redis cn1 name (Inr s1) t1 w)) \<and>
                  kv w' = (kv w)(name \<mapsto> RString (JSON (s1\<lparr>LastHeartbeat := t1\<rparr>))))"
  proof (intro exI conjI)
    show "interleave sched name (cn1, s1, t1) (cn2, s2, t2) (AtWatch, AtWatch, w) =
              (Returned e1, Returned e2, w')"
      by (rule r)
    show "if last sched
          then e2 = None \<and> statusOf (update_reply e2) = StatusOK \<and>
               update_reply e2 = fst (updateService_redis cn2 name (Inr s2) t2 w) \<and>
               e1 = Some TxFailedErr \<and> statusOf (update_reply e1) = StatusConflict \<and>
               kv w' = kv (snd (updateService_redis cn2 name (Inr s2) t2 w)) \<and>
               kv w' = (kv w)(name \<mapsto> RString (JSON (s2\<lparr>LastHeartbeat := t2\<rparr>)))
          else e1 = None \<and> statusOf (update_reply e1) = StatusOK \<and>
               update_reply e1 = fst (updateService_redis cn1 name (Inr s1) t1 w) \<and>
               e2 = Some TxFailedErr \<and> statusOf (update_reply e2) = StatusConflict \<and>
               kv w' = kv (snd (updateService_redis cn1 name (Inr s1) t1 w)) \<and>
               kv w' = (kv w)(name \<mapsto> RString (JSON (s1\<lparr>LastHeartbeat := t1\<rparr>)))"
      using r(2) by (simp add: a1 a2 update_reply_status split: if_splits)
  qed
qed

theorem racing_updates_one_winner_witness:
  "racing [True, False, False, True, False, True] \<and>
   validateService (svc_a\<lparr>Address := ''10.0.0.1:1''\<rparr>) = None \<and>
   validateService (svc_a\<lparr>Address := ''10.0.0.2:2''\<rparr>) = None \<and>
   kv world_a ''svc-a'' \<noteq> None \<and> quiet world_a \<and> (1::nat) \<noteq> 2 \<and>
   1 \<notin> set (dirty world_a) \<and> 2 \<notin> set (dirty world_a) \<and>
   fst (interleave [True, False, False, True, False, True] ''svc-a''
          (1, svc_a\<lparr>Address := ''10.0.0.1:1''\<rparr>, 7) (2, svc_a\<lparr>Address := ''10.0.0.2:2''\<rparr>, 8)
          (AtWatch, AtWatch, world_a)) = Returned (Some TxFailedErr) \<and>
   fst (snd (interleave [True, False, False, True, False, True] ''svc-a''
          (1, svc_a\<lparr>Address := ''10.0.0.1:1''\<rparr>, 7) (2, svc_a\<lparr>Address := ''10.0.0.2:2''\<rparr>, 8)
          (AtWatch, AtWatch, world_a))) = Returned None \<and>
   kv (snd (snd (interleave [True, False, False, True, False, True] ''svc-a''
          (1, svc_a\<lparr>Address := ''10.0.0.1:1''\<rparr>, 7) (2, svc_a\<lparr>Address := ''10.0.0.2:2''\<rparr>, 8)
          (AtWatch, AtWatch, world_a)))) ''svc-a'' =
     Some (RString (JSON \<lparr>Name = ''svc-a'', Address = ''10.0.0.2:2'', LastHeartbeat = 8\<rparr>)) \<and>
   fst (updateService_redis 2 ''svc-a'' (Inr (svc_a\<lparr>Address := ''10.0.0.2:2''\<rparr>)) 8 world_a) =
     [(StatusOK, H ''message'' ''Service updated sucessfully.'')] \<and>
   kv (snd (updateService_redis 2 ''svc-a'' (Inr (svc_a\<lparr>Address := ''10.0.0.2:2''\<rparr>)) 8 world_a))
       ''svc-a'' =
     Some (RString (JSON \<lparr>Name = ''svc-a'', Address = ''10.0.0.2:2'', LastHeartbeat = 8\<rparr>))"
  using racing_updates_one_winner
    [where sched = "[True, False, False, True, False, True]" and w = world_a
       and name = "''svc-a''" and ?cn1.0 = 1 and ?cn2.0 = 2
       and ?s1.0 = "svc_a\<lparr>Address := ''10.0.0.1:1''\<rparr>" and ?t1.0 = 7
       and ?s2.0 = "svc_a\<lparr>Address := ''10.0.0.2:2''\<rparr>" and ?t2.0 = 8]
  by (simp add: eval_defs racing_def quiet_def validateService_def updateService_redis_def
        update_fn_def)

end
